theory Spec2Isabelle
  imports Complex_Main "HOL-Library.AList"
begin

section \<open>Python values and exceptions\<close>

text \<open>
  The orchestration runtime is written in Python. Exceptions are values: every function
  that can raise returns a sum, with \<open>Inl\<close> carrying the exception. An exception has a
  class and the message that \<open>str(e)\<close> yields. Classes are records, and a field name
  that several classes share (\<open>status\<close>, \<open>results\<close>, \<open>name\<close>, ...) carries a prefix in
  all but one of them.
\<close>

datatype exn_kind = ValueError | RuntimeError | TypeError | TimeoutError | IndexError

datatype exn = Exn exn_kind string

fun exn_class :: "exn \<Rightarrow> exn_kind" where
  "exn_class (Exn k m) = k"

fun str_exn :: "exn \<Rightarrow> string" where
  "str_exn (Exn k m) = m"

text \<open>
  Values of type \<open>Any\<close>: the JSON-like values that travel through task dictionaries and
  workflow contexts, and \<open>PObj\<close>, any other object: the only instance of a class with
  the given name, whose \<open>__bool__\<close> either raises the given exception or (the default
  for objects) is true.
  A \<open>dict\<close> is an association list in insertion order with string keys. A float is a
  rational number, an infinity (\<open>FInf True\<close> is the positive one) or not-a-number:
  rounding to binary doubles is not modelled.
\<close>

datatype pyfloat = FNum rat | FInf bool | FNaN

datatype pyval =
    PNone
  | PBool bool
  | PInt int
  | PFloat pyfloat
  | PStr string
  | PList "pyval list"
  | PDict "(string \<times> pyval) list"
  | PObj string "exn option"

type_synonym pydict = "(string \<times> pyval) list"

fun type_name :: "pyval \<Rightarrow> string" where
  "type_name PNone = ''NoneType''"
| "type_name (PBool b) = ''bool''"
| "type_name (PInt i) = ''int''"
| "type_name (PFloat f) = ''float''"
| "type_name (PStr s) = ''str''"
| "type_name (PList xs) = ''list''"
| "type_name (PDict d) = ''dict''"
| "type_name (PObj n e) = n"

definition quoted :: "string \<Rightarrow> string" where
  "quoted s = [CHR 0x27] @ s @ [CHR 0x27]"

text \<open>Decimal rendering of an integer, as \<open>str(n)\<close> and an f-string do.\<close>

definition digit_char :: "nat \<Rightarrow> char" where
  "digit_char d = ''0123456789'' ! d"

function str_nat :: "nat \<Rightarrow> string" where
  "str_nat n = (if n < 10 then [digit_char n] else str_nat (n div 10) @ [digit_char (n mod 10)])"
  by pat_completeness auto
termination
  by (relation "measure id") auto

declare str_nat.simps [simp del]

definition str_int :: "int \<Rightarrow> string" where
  "str_int i = (if i < 0 then CHR ''-'' # str_nat (nat (- i)) else str_nat (nat i))"

text \<open>\<open>int(x)\<close> on a float truncates towards zero.\<close>

definition int_of_float :: "real \<Rightarrow> int" where
  "int_of_float x = (if 0 \<le> x then \<lfloor>x\<rfloor> else \<lceil>x\<rceil>)"


section \<open>Agent orchestrator\<close>

subsection \<open>Collaboration sessions\<close>

text \<open>
  \<open>CollaborationContext\<close> (agent\_communication.py). The constructor stores the
  participant list it is given; \<open>add_participant\<close> appends a name only when it is not
  yet in the list.
\<close>

record CollaborationContext =
  collaboration_id :: string
  initiator :: string
  participants :: "string list"
  collaboration_type :: string
  shared_context :: pydict
  cc_start_time :: real
  cc_status :: string
  cc_results :: "(string \<times> pyval \<times> real) list"

definition CollaborationContext_init ::
  "string \<Rightarrow> string \<Rightarrow> string list \<Rightarrow> string \<Rightarrow> pydict \<Rightarrow> real \<Rightarrow> CollaborationContext" where
  "CollaborationContext_init cid ini ps ctype ctx now =
     \<lparr>collaboration_id = cid, initiator = ini, participants = ps,
      collaboration_type = ctype, shared_context = ctx, cc_start_time = now,
      cc_status = ''active'', cc_results = []\<rparr>"

definition add_participant :: "string \<Rightarrow> CollaborationContext \<Rightarrow> CollaborationContext" where
  "add_participant agent_name c =
     (if agent_name \<notin> set (participants c)
      then c\<lparr>participants := participants c @ [agent_name]\<rparr>
      else c)"

subsection \<open>Registry, statistics and memory collaborators\<close>

datatype AgentStatus = IDLE | BUSY | ERROR | OFFLINE

record AgentInfo =
  ai_name :: string
  ai_role :: string
  ai_capabilities :: "string list"
  ai_status :: AgentStatus
  ai_last_seen :: real
  ai_metadata :: pydict

record OrchestratorStats =
  total_tasks :: int
  successful_tasks :: int
  failed_tasks :: int
  active_collaborations :: int
  total_collaborations :: int

text \<open>
  The \<open>Experience\<close> dataclass of the episodic memory declares eight fields, none with
  a default, so its generated constructor requires all eight. Whether a call raises
  depends only on the keyword names it passes; \<open>Experience_init\<close> takes those names and
  the two fields the rest of the model reads.
\<close>

definition Experience_fields :: "string list" where
  "Experience_fields =
     [''task'', ''success'', ''timestamp'', ''context'', ''lessons_learned'',
      ''performance_metrics'', ''agent_name'', ''task_type'']"

record Experience =
  exp_agent_name :: string
  exp_success :: bool

fun name_list :: "string list \<Rightarrow> string" where
  "name_list [] = []"
| "name_list [a] = quoted a"
| "name_list [a, b] = quoted a @ '' and '' @ quoted b"
| "name_list (a # b # c # rest) =
     (if rest = [] then quoted a @ '', '' @ quoted b @ '', and '' @ quoted c
      else quoted a @ '', '' @ name_list (b # c # rest))"

definition Experience_init :: "string list \<Rightarrow> string \<Rightarrow> bool \<Rightarrow> exn + Experience" where
  "Experience_init kwargs agent_name ok =
     (case filter (\<lambda>k. k \<notin> set Experience_fields) kwargs of
        k # ks \<Rightarrow> Inl (Exn TypeError
          (''Experience.__init__() got an unexpected keyword argument '' @ quoted k))
      | [] \<Rightarrow>
          (case filter (\<lambda>f. f \<notin> set kwargs) Experience_fields of
             [] \<Rightarrow> Inr \<lparr>exp_agent_name = agent_name, exp_success = ok\<rparr>
           | f # fs \<Rightarrow> Inl (Exn TypeError
               (''Experience.__init__() missing '' @ str_nat (length (f # fs)) @
                '' required positional argument'' @ (if fs = [] then [] else ''s'') @
                '': '' @ name_list (f # fs)))))"

datatype MemoryItemPriority = LOW | MEDIUM | HIGH | CRITICAL

record Orchestrator =
  agents :: "(string \<times> AgentInfo) list"
  collaborations :: "(string \<times> CollaborationContext) list"
  stats :: OrchestratorStats
  episodic_memory :: "Experience list"
  working_memory :: "(MemoryItemPriority \<times> string list) list"
  offers_sent :: "string list"

definition set_status :: "string \<Rightarrow> AgentStatus \<Rightarrow> Orchestrator \<Rightarrow> Orchestrator" where
  "set_status agent_name s orch =
     orch\<lparr>agents := map (\<lambda>(n, a). if n = agent_name then (n, a\<lparr>ai_status := s\<rparr>) else (n, a))
                        (agents orch)\<rparr>"

definition agent_status :: "Orchestrator \<Rightarrow> string \<Rightarrow> AgentStatus option" where
  "agent_status orch agent_name = map_option ai_status (map_of (agents orch) agent_name)"

subsection \<open>\<open>execute_task\<close>\<close>

text \<open>
  \<open>AgentOrchestrator.execute_task\<close>. The outcome of
  \<open>agent_info.communicator.send_task_request\<close> is the argument \<open>sent\<close>: the value it
  returns or the exception it raises. The function returns the value or exception the
  caller sees, together with the orchestrator afterwards.

  The body of the \<open>try\<close> runs from the request to the \<open>return\<close>; an exception anywhere
  in it enters the handler, which marks the agent, counts the failure, builds the
  failed \<open>Experience\<close> and ends with a bare \<open>raise\<close>. Both \<open>Experience(...)\<close> calls of
  the source pass seven keywords: the \<open>timestamp\<close> field is not among them.
\<close>

definition experience_call_kwargs :: "string list" where
  "experience_call_kwargs =
     [''task'', ''success'', ''context'', ''lessons_learned'',
      ''performance_metrics'', ''agent_name'', ''task_type'']"

definition count_success :: "Orchestrator \<Rightarrow> Orchestrator" where
  "count_success orch =
     orch\<lparr>stats := (stats orch)\<lparr>total_tasks := total_tasks (stats orch) + 1,
                                successful_tasks := successful_tasks (stats orch) + 1\<rparr>\<rparr>"

definition count_failure :: "Orchestrator \<Rightarrow> Orchestrator" where
  "count_failure orch =
     orch\<lparr>stats := (stats orch)\<lparr>total_tasks := total_tasks (stats orch) + 1,
                                failed_tasks := failed_tasks (stats orch) + 1\<rparr>\<rparr>"

definition execute_task_try :: "string \<Rightarrow> (exn + pyval) \<Rightarrow> Orchestrator \<Rightarrow> (exn + pyval) \<times> Orchestrator" where
  "execute_task_try agent_name sent orch =
     (case sent of
        Inl e \<Rightarrow> (Inl e, orch)
      | Inr result \<Rightarrow>
          (let orch1 = count_success (set_status agent_name IDLE orch) in
           case Experience_init experience_call_kwargs agent_name True of
             Inl e \<Rightarrow> (Inl e, orch1)
           | Inr experience \<Rightarrow>
               (Inr result,
                orch1\<lparr>episodic_memory := episodic_memory orch1 @ [experience],
                      working_memory := working_memory orch1 @
                        [(MEDIUM, [''task'', ''success'', agent_name])]\<rparr>)))"

definition execute_task_except :: "string \<Rightarrow> exn \<Rightarrow> Orchestrator \<Rightarrow> (exn + pyval) \<times> Orchestrator" where
  "execute_task_except agent_name e orch =
     (let orch1 = count_failure (set_status agent_name ERROR orch) in
      case Experience_init experience_call_kwargs agent_name False of
        Inl e' \<Rightarrow> (Inl e', orch1)
      | Inr experience \<Rightarrow>
          (Inl e,
           orch1\<lparr>episodic_memory := episodic_memory orch1 @ [experience],
                 working_memory := working_memory orch1 @
                   [(HIGH, [''task'', ''error'', agent_name])]\<rparr>))"

definition execute_task :: "string \<Rightarrow> (exn + pyval) \<Rightarrow> Orchestrator \<Rightarrow> (exn + pyval) \<times> Orchestrator" where
  "execute_task agent_name sent orch =
     (case map_of (agents orch) agent_name of
        None \<Rightarrow>
          (Inl (Exn ValueError (''Agent '' @ quoted agent_name @ '' not registered'')), orch)
      | Some agent_info \<Rightarrow>
          if ai_status agent_info \<noteq> IDLE
          then (Inl (Exn RuntimeError (''Agent '' @ quoted agent_name @ '' is not available'')),
                orch)
          else (case execute_task_try agent_name sent (set_status agent_name BUSY orch) of
                  (Inl e, orch') \<Rightarrow> execute_task_except agent_name e orch'
                | (Inr result, orch') \<Rightarrow> (Inr result, orch')))"

subsection \<open>\<open>start_collaboration\<close>\<close>

text \<open>
  \<open>AgentOrchestrator.start_collaboration\<close>. \<open>t_id\<close> and \<open>t_start\<close> are the two clock
  readings (for the identifier and for the session's start time). The offers made to
  the registered participants through their communicators are recorded in
  \<open>offers_sent\<close>; their replies are discarded by the source.
\<close>

definition start_collaboration ::
  "string \<Rightarrow> string list \<Rightarrow> string \<Rightarrow> pydict \<Rightarrow> real \<Rightarrow> real \<Rightarrow> Orchestrator \<Rightarrow> string \<times> Orchestrator" where
  "start_collaboration ini ps ctype ctx t_id t_start orch =
     (let cid = ''collab_'' @ str_int (int_of_float (t_id * 1000));
          collaboration = CollaborationContext_init cid ini ([ini] @ ps) ctype ctx t_start;
          orch1 = orch\<lparr>collaborations := AList.update cid collaboration (collaborations orch),
                       stats := (stats orch)\<lparr>
                         active_collaborations := active_collaborations (stats orch) + 1,
                         total_collaborations := total_collaborations (stats orch) + 1\<rparr>\<rparr>
      in (cid, orch1\<lparr>offers_sent := offers_sent orch1 @
                         filter (\<lambda>p. p \<in> fst ` set (agents orch1)) ps\<rparr>))"

definition session_participants :: "string \<times> Orchestrator \<Rightarrow> string list option" where
  "session_participants r = map_option participants (map_of (collaborations (snd r)) (fst r))"


section \<open>Workflow engine: executions and cancellation\<close>

datatype WorkflowStatus = PENDING | RUNNING | COMPLETED | FAILED | CANCELLED

record WorkflowExecution =
  workflow_id :: string
  workflow_config :: pydict
  status :: WorkflowStatus
  start_time :: "real option"
  end_time :: "real option"
  current_step :: "string option"
  results :: pydict
  errors :: "string list"
  wf_context :: pydict

text \<open>
  \<open>WorkflowEngine.cancel_workflow\<close>, with the clock reading \<open>now\<close>. The registry
  \<open>active_workflows\<close> maps a workflow id to its execution.
\<close>

definition cancel_workflow ::
  "string \<Rightarrow> real \<Rightarrow> (string \<times> WorkflowExecution) list \<Rightarrow> bool \<times> (string \<times> WorkflowExecution) list" where
  "cancel_workflow wid now active_workflows =
     (case map_of active_workflows wid of
        None \<Rightarrow> (False, active_workflows)
      | Some execution \<Rightarrow>
          if status execution = RUNNING
          then (True, AList.update wid (execution\<lparr>status := CANCELLED, end_time := Some now\<rparr>)
                        active_workflows)
          else (False, active_workflows))"


section \<open>Workflow engine: steps\<close>

subsection \<open>String operations of the template grammar\<close>

text \<open>
  A string is a list of characters with code points below 256. \<open>startswith\<close>,
  \<open>endswith\<close>, the slices \<open>s[2:-2]\<close> and \<open>s[2:-1]\<close>, \<open>strip\<close>, \<open>lower\<close>,
  \<open>split(sep)\<close>, \<open>sep in s\<close> and \<open>split(sep, 1)\<close> are Python's \<open>str\<close> methods.
\<close>

definition startswith :: "string \<Rightarrow> string \<Rightarrow> bool" where
  "startswith s p = (take (length p) s = p)"

definition endswith :: "string \<Rightarrow> string \<Rightarrow> bool" where
  "endswith s p = (length p \<le> length s \<and> drop (length s - length p) s = p)"

definition slice_2_m2 :: "string \<Rightarrow> string" where
  "slice_2_m2 s = drop 2 (take (length s - 2) s)"

definition slice_2_m1 :: "string \<Rightarrow> string" where
  "slice_2_m1 s = drop 2 (take (length s - 1) s)"

definition is_space :: "char \<Rightarrow> bool" where
  "is_space c = (c \<in> set [CHR 0x09, CHR 0x0A, CHR 0x0B, CHR 0x0C, CHR 0x0D, CHR 0x1C,
                           CHR 0x1D, CHR 0x1E, CHR 0x1F, CHR 0x20, CHR 0x85, CHR 0xA0])"

definition strip :: "string \<Rightarrow> string" where
  "strip s = rev (dropWhile is_space (rev (dropWhile is_space s)))"

definition lower_char :: "char \<Rightarrow> char" where
  "lower_char c =
     (let n = (of_char c :: nat)
      in if (65 \<le> n \<and> n \<le> 90) \<or> (192 \<le> n \<and> n \<le> 222 \<and> n \<noteq> 215)
         then char_of (n + 32) else c)"

definition lower :: "string \<Rightarrow> string" where
  "lower s = map lower_char s"

fun split_char :: "char \<Rightarrow> string \<Rightarrow> string list" where
  "split_char sep [] = [[]]"
| "split_char sep (c # cs) =
     (if c = sep then [] # split_char sep cs
      else (case split_char sep cs of
              [] \<Rightarrow> [[c]]
            | w # ws \<Rightarrow> (c # w) # ws))"

fun split_first :: "string \<Rightarrow> string \<Rightarrow> (string \<times> string) option" where
  "split_first sep [] = (if sep = [] then Some ([], []) else None)"
| "split_first sep (c # cs) =
     (if startswith (c # cs) sep then Some ([], drop (length sep) (c # cs))
      else (case split_first sep cs of
              None \<Rightarrow> None
            | Some (l, r) \<Rightarrow> Some (c # l, r)))"

definition contains :: "string \<Rightarrow> string \<Rightarrow> bool" where
  "contains s sep = (split_first sep s \<noteq> None)"

subsection \<open>Literals: \<open>int(value)\<close> and \<open>float(value)\<close>\<close>

text \<open>
  The built-in conversions on a string, with \<open>None\<close> for \<open>ValueError\<close>. Both accept
  surrounding whitespace, a sign, and digits separated by single underscores; \<open>float\<close>
  also accepts a fraction, an exponent, and the words \<open>inf\<close>, \<open>infinity\<close> and \<open>nan\<close> in
  any case.
\<close>

definition digit_val :: "char \<Rightarrow> nat option" where
  "digit_val c =
     (let n = (of_char c :: nat) in if 48 \<le> n \<and> n \<le> 57 then Some (n - 48) else None)"

fun digits_more :: "nat \<Rightarrow> nat \<Rightarrow> string \<Rightarrow> nat \<times> nat \<times> string" where
  "digits_more acc cnt [] = (acc, cnt, [])"
| "digits_more acc cnt [c] =
     (case digit_val c of
        Some d \<Rightarrow> (acc * 10 + d, cnt + 1, [])
      | None \<Rightarrow> (acc, cnt, [c]))"
| "digits_more acc cnt (c # c' # cs) =
     (case digit_val c of
        Some d \<Rightarrow> digits_more (acc * 10 + d) (cnt + 1) (c' # cs)
      | None \<Rightarrow>
          (if c = CHR ''_'' then
             (case digit_val c' of
                Some d \<Rightarrow> digits_more (acc * 10 + d) (cnt + 1) cs
              | None \<Rightarrow> (acc, cnt, c # c' # cs))
           else (acc, cnt, c # c' # cs)))"

definition digitpart :: "string \<Rightarrow> (nat \<times> nat \<times> string) option" where
  "digitpart s =
     (case s of
        [] \<Rightarrow> None
      | c # cs \<Rightarrow> (case digit_val c of
                    None \<Rightarrow> None
                  | Some d \<Rightarrow> Some (digits_more d 1 cs)))"

definition split_sign :: "string \<Rightarrow> bool \<times> string" where
  "split_sign s =
     (case s of
        [] \<Rightarrow> (False, [])
      | c # cs \<Rightarrow> if c = CHR ''-'' then (True, cs)
                  else if c = CHR ''+'' then (False, cs)
                  else (False, c # cs))"

definition py_int :: "string \<Rightarrow> int option" where
  "py_int s =
     (let (neg, body) = split_sign (strip s) in
      case digitpart body of
        Some (v, n, []) \<Rightarrow> Some (if neg then - int v else int v)
      | _ \<Rightarrow> None)"

definition exponent :: "rat \<Rightarrow> string \<Rightarrow> rat option" where
  "exponent m s =
     (case s of
        [] \<Rightarrow> Some m
      | c # cs \<Rightarrow>
          if c = CHR ''e'' \<or> c = CHR ''E'' then
            (let (neg, body) = split_sign cs in
             case digitpart body of
               Some (v, n, []) \<Rightarrow> Some (if neg then m / 10 ^ v else m * 10 ^ v)
             | _ \<Rightarrow> None)
          else None)"

definition mantissa :: "string \<Rightarrow> rat option" where
  "mantissa s =
     (case digitpart s of
        Some (ip, n, r1) \<Rightarrow>
          (case r1 of
             c # r2 \<Rightarrow>
               if c = CHR ''.'' then
                 (case digitpart r2 of
                    Some (fp, k, r3) \<Rightarrow> exponent (of_nat ip + of_nat fp / 10 ^ k) r3
                  | None \<Rightarrow> exponent (of_nat ip) r2)
               else exponent (of_nat ip) r1
           | [] \<Rightarrow> Some (of_nat ip))
      | None \<Rightarrow>
          (case s of
             c # r2 \<Rightarrow>
               if c = CHR ''.'' then
                 (case digitpart r2 of
                    Some (fp, k, r3) \<Rightarrow> exponent (of_nat fp / 10 ^ k) r3
                  | None \<Rightarrow> None)
               else None
           | [] \<Rightarrow> None))"

definition py_float :: "string \<Rightarrow> pyfloat option" where
  "py_float s =
     (let (neg, body) = split_sign (strip s) in
      if lower body = ''inf'' \<or> lower body = ''infinity'' then Some (FInf (\<not> neg))
      else if lower body = ''nan'' then Some FNaN
      else (case mantissa body of
              None \<Rightarrow> None
            | Some m \<Rightarrow> Some (FNum (if neg then - m else m))))"

subsection \<open>Truthiness and equality\<close>

text \<open>
  \<open>bool(v)\<close> and \<open>v == w\<close>. Numbers of the three numeric types compare by value
  (\<open>True == 1\<close>, \<open>1 == 1.0\<close>), not-a-number equals nothing, dictionaries compare
  without regard to order, objects by identity.
\<close>

fun py_bool :: "pyval \<Rightarrow> exn + bool" where
  "py_bool PNone = Inr False"
| "py_bool (PBool b) = Inr b"
| "py_bool (PInt i) = Inr (i \<noteq> 0)"
| "py_bool (PFloat f) = Inr (f \<noteq> FNum 0)"
| "py_bool (PStr s) = Inr (s \<noteq> [])"
| "py_bool (PList xs) = Inr (xs \<noteq> [])"
| "py_bool (PDict d) = Inr (d \<noteq> [])"
| "py_bool (PObj n None) = Inr True"
| "py_bool (PObj n (Some e)) = Inl e"

fun numeric :: "pyval \<Rightarrow> pyfloat option" where
  "numeric (PBool b) = Some (FNum (if b then 1 else 0))"
| "numeric (PInt i) = Some (FNum (of_int i))"
| "numeric (PFloat f) = Some f"
| "numeric v = None"

fun py_eq :: "pyval \<Rightarrow> pyval \<Rightarrow> bool"
  and py_eq_list :: "pyval list \<Rightarrow> pyval list \<Rightarrow> bool"
  and py_dict_le :: "(string \<times> pyval) list \<Rightarrow> (string \<times> pyval) list \<Rightarrow> bool" where
  "py_eq (PList xs) w = (case w of PList ys \<Rightarrow> py_eq_list xs ys | _ \<Rightarrow> False)"
| "py_eq (PDict a) w =
     (case w of PDict b \<Rightarrow> length a = length b \<and> py_dict_le a b | _ \<Rightarrow> False)"
| "py_eq PNone w = (w = PNone)"
| "py_eq (PStr s) w = (w = PStr s)"
| "py_eq (PObj n e) w = (case w of PObj m e' \<Rightarrow> n = m | _ \<Rightarrow> False)"
| "py_eq (PBool b) w =
     (case numeric w of Some g \<Rightarrow> g = FNum (if b then 1 else 0) | None \<Rightarrow> False)"
| "py_eq (PInt i) w = (case numeric w of Some g \<Rightarrow> g = FNum (of_int i) | None \<Rightarrow> False)"
| "py_eq (PFloat f) w = (case numeric w of Some g \<Rightarrow> f \<noteq> FNaN \<and> g = f | None \<Rightarrow> False)"
| "py_eq_list [] ys = (ys = [])"
| "py_eq_list (x # xs) ys = (case ys of [] \<Rightarrow> False | y # ys' \<Rightarrow> py_eq x y \<and> py_eq_list xs ys')"
| "py_dict_le [] b = True"
| "py_dict_le ((k, v) # a) b =
     ((case map_of b k of None \<Rightarrow> False | Some w \<Rightarrow> py_eq v w) \<and> py_dict_le a b)"

subsection \<open>Parameter and condition templates\<close>

text \<open>\<open>WorkflowEngine._get_nested_value\<close>, \<open>_resolve_parameters\<close> (its loop body is
  \<open>resolve_value\<close>), \<open>_resolve_condition_value\<close> and \<open>_evaluate_condition\<close>.\<close>

fun get_nested_value :: "pyval \<Rightarrow> string list \<Rightarrow> pyval" where
  "get_nested_value current [] = current"
| "get_nested_value current (key # path) =
     (case current of
        PDict d \<Rightarrow> (case map_of d key of
                     Some v \<Rightarrow> get_nested_value v path
                   | None \<Rightarrow> PNone)
      | _ \<Rightarrow> PNone)"

definition ctx_get :: "pydict \<Rightarrow> string \<Rightarrow> pyval \<Rightarrow> pyval" where
  "ctx_get ctx key dflt = (case map_of ctx key of Some v \<Rightarrow> v | None \<Rightarrow> dflt)"

definition resolve_value :: "pyval \<Rightarrow> pydict \<Rightarrow> pyval" where
  "resolve_value v ctx =
     (case v of
        PStr s \<Rightarrow>
          if startswith s ''{{'' \<and> endswith s ''}}''
          then ctx_get ctx (strip (slice_2_m2 s)) v
          else if startswith s ''${'' \<and> endswith s ''}''
          then get_nested_value (PDict ctx) (split_char CHR ''.'' (strip (slice_2_m1 s)))
          else v
      | _ \<Rightarrow> v)"

definition resolve_parameters :: "pydict \<Rightarrow> pydict \<Rightarrow> pydict" where
  "resolve_parameters params ctx =
     fold (\<lambda>(key, v) resolved. AList.update key (resolve_value v ctx) resolved) params []"

definition resolve_condition_value :: "string \<Rightarrow> pydict \<Rightarrow> pyval" where
  "resolve_condition_value v ctx =
     (if startswith v ''{{'' \<and> endswith v ''}}''
      then ctx_get ctx (strip (slice_2_m2 v)) PNone
      else if startswith v ''${'' \<and> endswith v ''}''
      then get_nested_value (PDict ctx) (split_char CHR ''.'' (strip (slice_2_m1 v)))
      else (case py_int v of
              Some i \<Rightarrow> PInt i
            | None \<Rightarrow>
                (case py_float v of
                   Some f \<Rightarrow> PFloat f
                 | None \<Rightarrow>
                     if lower v = ''true'' \<or> lower v = ''false''
                     then PBool (lower v = ''true'')
                     else PStr v)))"

text \<open>The body of the \<open>try\<close> in \<open>_evaluate_condition\<close>, and the function with its handler
  \<open>except Exception: return False\<close>.\<close>

definition evaluate_condition_try :: "string \<Rightarrow> pydict \<Rightarrow> exn + bool" where
  "evaluate_condition_try cond ctx =
     (if startswith cond ''{{'' \<and> endswith cond ''}}''
      then py_bool (ctx_get ctx (strip (slice_2_m2 cond)) PNone)
      else (case split_first ''=='' cond of
              Some (l, r) \<Rightarrow>
                Inr (py_eq (resolve_condition_value (strip l) ctx)
                           (resolve_condition_value (strip r) ctx))
            | None \<Rightarrow>
                (case split_first ''!='' cond of
                   Some (l, r) \<Rightarrow>
                     Inr (\<not> py_eq (resolve_condition_value (strip l) ctx)
                                  (resolve_condition_value (strip r) ctx))
                 | None \<Rightarrow> py_bool (ctx_get ctx cond (PBool False)))))"

definition evaluate_condition :: "string \<Rightarrow> pydict \<Rightarrow> bool" where
  "evaluate_condition cond ctx =
     (case evaluate_condition_try cond ctx of
        Inl e \<Rightarrow> False
      | Inr b \<Rightarrow> b)"

subsection \<open>Steps and the dispatcher\<close>

datatype StepType = TASK | PARALLEL | CONDITIONAL | LOOP

datatype WorkflowStep = WorkflowStep
  (name: string)
  (step_type: StepType)
  (agent: "string option")
  (action: "string option")
  (parameters: pydict)
  (dependencies: "string list")
  (condition: "string option")
  (parallel_steps: "WorkflowStep list")
  (loop_config: "pydict option")

text \<open>
  The engine reaches agents only through \<open>self.orchestrator.execute_task(agent, task)\<close>.
  The orchestrator is \<open>None\<close> or a dispatcher; a dispatcher answers a call with a value
  or an exception, and its answer may depend on the calls made before. Every call the
  engine makes is appended to the call log that the step functions thread through, so
  that "the dispatcher is not invoked" is "the log is unchanged".
\<close>

type_synonym call = "string \<times> pyval"

type_synonym dispatcher = "call list \<Rightarrow> string \<Rightarrow> pyval \<Rightarrow> exn + pyval"

definition opt_str :: "string option \<Rightarrow> pyval" where
  "opt_str x = (case x of None \<Rightarrow> PNone | Some s \<Rightarrow> PStr s)"

definition task_of :: "WorkflowStep \<Rightarrow> pydict \<Rightarrow> pyval" where
  "task_of step ctx =
     PDict [(''action'', opt_str (action step)),
            (''parameters'', PDict (resolve_parameters (parameters step) ctx)),
            (''context'', PDict ctx)]"

definition execute_task_step ::
  "dispatcher option \<Rightarrow> WorkflowStep \<Rightarrow> pydict \<Rightarrow> call list \<Rightarrow> (exn + pyval) \<times> call list" where
  "execute_task_step orch step ctx calls =
     (case orch of
        None \<Rightarrow> (Inl (Exn RuntimeError ''No agent orchestrator configured''), calls)
      | Some d \<Rightarrow>
          (if agent step = None \<or> agent step = Some []
           then (Inl (Exn ValueError (''Step '' @ quoted (name step) @ '' has no agent specified'')),
                 calls)
           else (d calls (the (agent step)) (task_of step ctx),
                 calls @ [(the (agent step), task_of step ctx)])))"

definition skipped :: pyval where
  "skipped = PDict [(''skipped'', PBool True), (''reason'', PStr ''condition_not_met'')]"

text \<open>\<open>_execute_conditional_step\<close>: the body of its \<open>try\<close>, and the step with the
  handler that wraps whatever the body raises.\<close>

definition conditional_try ::
  "dispatcher option \<Rightarrow> WorkflowStep \<Rightarrow> string \<Rightarrow> pydict \<Rightarrow> call list \<Rightarrow> (exn + pyval) \<times> call list" where
  "conditional_try orch step cond ctx calls =
     (if evaluate_condition cond ctx
      then execute_task_step orch step ctx calls
      else (Inr skipped, calls))"

definition execute_conditional_step ::
  "dispatcher option \<Rightarrow> WorkflowStep \<Rightarrow> pydict \<Rightarrow> call list \<Rightarrow> (exn + pyval) \<times> call list" where
  "execute_conditional_step orch step ctx calls =
     (if condition step = None \<or> condition step = Some []
      then (Inl (Exn ValueError (''Conditional step '' @ quoted (name step) @ '' has no condition'')),
            calls)
      else (case conditional_try orch step (the (condition step)) ctx calls of
              (Inl e, calls') \<Rightarrow>
                (Inl (Exn RuntimeError (''Failed to evaluate condition '' @
                        quoted (the (condition step)) @ '': '' @ str_exn e)), calls')
            | (Inr v, calls') \<Rightarrow> (Inr v, calls')))"

text \<open>
  \<open>_execute_loop_step\<close>. Iterating a list yields its items, a string its characters, a
  dictionary its keys; anything else is not iterable. Dictionary keys are strings here:
  an item source that is not a list is looked up in the context, where only a string can
  be present, and a dictionary as item source or loop variable is unhashable. A loop
  variable that is hashable but not a string is not bound (no template can read it).
\<close>

definition py_iter :: "pyval \<Rightarrow> exn + pyval list" where
  "py_iter v =
     (case v of
        PList xs \<Rightarrow> Inr xs
      | PStr s \<Rightarrow> Inr (map (\<lambda>c. PStr [c]) s)
      | PDict d \<Rightarrow> Inr (map (\<lambda>kv. PStr (fst kv)) d)
      | _ \<Rightarrow> Inl (Exn TypeError (quoted (type_name v) @ '' object is not iterable'')))"

definition unhashable :: "pyval \<Rightarrow> bool" where
  "unhashable v = (case v of PList xs \<Rightarrow> True | PDict d \<Rightarrow> True | _ \<Rightarrow> False)"

definition bind_loop_var :: "pyval \<Rightarrow> pyval \<Rightarrow> pydict \<Rightarrow> pydict" where
  "bind_loop_var var item ctx = (case var of PStr s \<Rightarrow> AList.update s item ctx | _ \<Rightarrow> ctx)"

fun loop_body ::
  "dispatcher option \<Rightarrow> WorkflowStep \<Rightarrow> pydict \<Rightarrow> pyval \<Rightarrow> nat \<Rightarrow> pyval list \<Rightarrow> call list
    \<Rightarrow> (exn + pyval list) \<times> call list" where
  "loop_body orch step ctx var i [] calls = (Inr [], calls)"
| "loop_body orch step ctx var i (item # items) calls =
     (if unhashable var
      then (Inl (Exn TypeError (''unhashable type: '' @ quoted (type_name var))), calls)
      else
        (let loop_context = AList.update ''loop_index'' (PInt (int i)) (bind_loop_var var item ctx);
             r = execute_task_step orch step loop_context calls;
             slot = (case fst r of
                       Inr v \<Rightarrow> v
                     | Inl e \<Rightarrow> PDict [(''error'', PStr (str_exn e)), (''item'', item),
                                         (''index'', PInt (int i))])
         in case loop_body orch step ctx var (i + 1) items (snd r) of
              (Inl e, calls') \<Rightarrow> (Inl e, calls')
            | (Inr slots, calls') \<Rightarrow> (Inr (slot # slots), calls')))"

definition execute_loop_step ::
  "dispatcher option \<Rightarrow> WorkflowStep \<Rightarrow> pydict \<Rightarrow> call list \<Rightarrow> (exn + pyval) \<times> call list" where
  "execute_loop_step orch step ctx calls =
     (if loop_config step = None \<or> loop_config step = Some []
      then (Inl (Exn ValueError (''Loop step '' @ quoted (name step) @ '' has no loop configuration'')),
            calls)
      else
        (let cfg = the (loop_config step);
             loop_var = ctx_get cfg ''variable'' (PStr ''item'');
             loop_items = ctx_get cfg ''items'' (PList []);
             looked_up =
               (case loop_items of
                  PList xs \<Rightarrow> Inr (PList xs)
                | PStr key \<Rightarrow> Inr (ctx_get ctx key (PList []))
                | PDict d \<Rightarrow> Inl (Exn TypeError (''unhashable type: '' @ quoted ''dict''))
                | _ \<Rightarrow> Inr (PList []))
         in case looked_up of
              Inl e \<Rightarrow> (Inl e, calls)
            | Inr src \<Rightarrow>
                (case py_iter src of
                   Inl e \<Rightarrow> (Inl e, calls)
                 | Inr items \<Rightarrow>
                     (case loop_body orch step ctx loop_var 0 items calls of
                        (Inl e, calls') \<Rightarrow> (Inl e, calls')
                      | (Inr slots, calls') \<Rightarrow> (Inr (PList slots), calls')))))"

text \<open>
  \<open>_execute_step\<close> and \<open>_execute_parallel_step\<close>. Each nested step is submitted to the
  thread pool with a copy of the context, and the futures are read in submission order:
  \<open>run_branches\<close> gives the outcome of every branch, \<open>collect\<close> is the loop that fills
  \<open>results[step_name]\<close> with the branch's value or with \<open>{'error': str(e)}\<close>. The
  branches are run one after the other in submission order (one of the schedules of the
  pool), and the 300 second limit on a future is not modelled.
\<close>

definition branch_slot :: "exn + pyval \<Rightarrow> pyval" where
  "branch_slot r = (case r of Inr v \<Rightarrow> v | Inl e \<Rightarrow> PDict [(''error'', PStr (str_exn e))])"

definition collect :: "(string \<times> (exn + pyval)) list \<Rightarrow> pydict" where
  "collect futures =
     fold (\<lambda>(step_name, r) results. AList.update step_name (branch_slot r) results) futures []"

fun execute_step ::
    "dispatcher option \<Rightarrow> WorkflowStep \<Rightarrow> pydict \<Rightarrow> call list \<Rightarrow> (exn + pyval) \<times> call list"
  and run_branches ::
    "dispatcher option \<Rightarrow> WorkflowStep list \<Rightarrow> pydict \<Rightarrow> call list
      \<Rightarrow> (string \<times> (exn + pyval)) list \<times> call list" where
  "execute_step orch (WorkflowStep n ty ag ac ps deps cond par lc) ctx calls =
     (case ty of
        TASK \<Rightarrow> execute_task_step orch (WorkflowStep n ty ag ac ps deps cond par lc) ctx calls
      | PARALLEL \<Rightarrow>
          (if par = [] then (Inr (PList []), calls)
           else (Inr (PDict (collect (fst (run_branches orch par ctx calls)))),
                 snd (run_branches orch par ctx calls)))
      | CONDITIONAL \<Rightarrow>
          execute_conditional_step orch (WorkflowStep n ty ag ac ps deps cond par lc) ctx calls
      | LOOP \<Rightarrow> execute_loop_step orch (WorkflowStep n ty ag ac ps deps cond par lc) ctx calls)"
| "run_branches orch [] ctx calls = ([], calls)"
| "run_branches orch (s # ss) ctx calls =
     ((name s, fst (execute_step orch s ctx calls)) #
        fst (run_branches orch ss ctx (snd (execute_step orch s ctx calls))),
      snd (run_branches orch ss ctx (snd (execute_step orch s ctx calls))))"

text \<open>
  The step loop of \<open>_execute_workflow_sync\<close>, on the parsed steps: each result is stored
  under \<open>context[name + "_result"]\<close> and \<open>execution.results[name]\<close>; the first step that
  raises appends to \<open>execution.errors\<close> and ends the loop with its exception.
\<close>

fun steps_loop ::
  "dispatcher option \<Rightarrow> WorkflowStep list \<Rightarrow> pydict \<Rightarrow> WorkflowExecution \<Rightarrow> call list
    \<Rightarrow> (exn + pydict) \<times> WorkflowExecution \<times> call list" where
  "steps_loop orch [] ctx execution calls = (Inr ctx, execution, calls)"
| "steps_loop orch (step # steps) ctx execution calls =
     (case execute_step orch step ctx calls of
        (Inr result, calls') \<Rightarrow>
          steps_loop orch steps
            (AList.update (name step @ ''_result'') result ctx)
            (execution\<lparr>current_step := Some (name step),
                       results := AList.update (name step) result (results execution)\<rparr>)
            calls'
      | (Inl e, calls') \<Rightarrow>
          (Inl e,
           execution\<lparr>current_step := Some (name step),
                      errors := errors execution @
                        [''Step '' @ quoted (name step) @ '' failed: '' @ str_exn e]\<rparr>,
           calls'))"

definition execute_workflow_sync ::
  "dispatcher option \<Rightarrow> WorkflowStep list \<Rightarrow> pydict \<Rightarrow> WorkflowExecution \<Rightarrow> call list
    \<Rightarrow> (exn + pyval) \<times> WorkflowExecution \<times> call list" where
  "execute_workflow_sync orch steps input_data execution calls =
     (case steps_loop orch steps input_data
             (execution\<lparr>wf_context := fold (\<lambda>(k, v). AList.update k v) input_data
                                             (wf_context execution)\<rparr>) calls of
        (Inl e, execution', calls') \<Rightarrow> (Inl e, execution', calls')
      | (Inr ctx, execution', calls') \<Rightarrow>
          (Inr (ctx_get ctx ''final_result'' (PDict ctx)), execution', calls'))"



section \<open>Message bus\<close>

text \<open>
  A \<open>Message\<close> object. The class defines neither \<open>__eq__\<close> nor \<open>__lt__\<close>, so two messages
  are equal only when they are the same object: \<open>obj_id\<close> is that identity. Clock
  readings (\<open>time.time()\<close>) are real numbers.
\<close>

record Message =
  obj_id :: nat
  message_type :: string
  sender :: string
  receiver :: "string option"
  payload :: pyval
  correlation_id :: string
  priority :: int
  timestamp :: real
  ttl :: real

definition is_expired :: "real \<Rightarrow> Message \<Rightarrow> bool" where
  "is_expired now m = (now - timestamp m > ttl m)"

subsection \<open>The priority queue\<close>

text \<open>
  \<open>queue.PriorityQueue\<close> keeps its entries in a list ordered as a binary heap by
  \<open>heapq\<close>; the bus puts the tuples \<open>(-priority, message)\<close>. \<open>entry_lt\<close> is \<open>a < b\<close> on two
  such tuples: the first components decide when they differ; when they are equal the
  messages are compared, which is false for one and the same object and raises
  \<open>TypeError\<close> for two objects. \<open>siftdown\<close>, \<open>siftup\<close>, \<open>heappush\<close> and \<open>heappop\<close> follow
  CPython's \<open>heapq\<close>, including what is left in the list when a comparison raises:
  \<open>heappush\<close> has already appended the entry, and \<open>heappop\<close> has already removed the
  entry it was going to return.
\<close>

type_synonym entry = "int \<times> Message"

definition entry_lt :: "entry \<Rightarrow> entry \<Rightarrow> exn + bool" where
  "entry_lt a b =
     (if fst a \<noteq> fst b then Inr (fst a < fst b)
      else if obj_id (snd a) = obj_id (snd b) then Inr False
      else Inl (Exn TypeError
             (quoted ''<'' @ '' not supported between instances of '' @
              quoted ''Message'' @ '' and '' @ quoted ''Message'')))"

function siftdown :: "entry list \<Rightarrow> nat \<Rightarrow> nat \<Rightarrow> exn option \<times> entry list" where
  "siftdown heap startpos pos =
     (if pos > startpos then
        (case entry_lt (heap ! pos) (heap ! ((pos - 1) div 2)) of
           Inl e \<Rightarrow> (Some e, heap)
         | Inr lt \<Rightarrow>
             if lt
             then siftdown (heap[(pos - 1) div 2 := heap ! pos, pos := heap ! ((pos - 1) div 2)])
                    startpos ((pos - 1) div 2)
             else (None, heap))
      else (None, heap))"
  by pat_completeness auto
termination
  by (relation "measure (\<lambda>(heap, startpos, pos). pos)") auto

function siftup :: "entry list \<Rightarrow> nat \<Rightarrow> nat \<Rightarrow> exn option \<times> entry list" where
  "siftup heap startpos pos =
     (if pos < length heap div 2 then
        (if 2 * pos + 2 < length heap then
           (case entry_lt (heap ! (2 * pos + 1)) (heap ! (2 * pos + 2)) of
              Inl e \<Rightarrow> (Some e, heap)
            | Inr lt \<Rightarrow>
                if lt
                then siftup (heap[2 * pos + 1 := heap ! pos, pos := heap ! (2 * pos + 1)])
                       startpos (2 * pos + 1)
                else siftup (heap[2 * pos + 2 := heap ! pos, pos := heap ! (2 * pos + 2)])
                       startpos (2 * pos + 2))
         else siftup (heap[2 * pos + 1 := heap ! pos, pos := heap ! (2 * pos + 1)])
                startpos (2 * pos + 1))
      else siftdown heap startpos pos)"
  by pat_completeness auto
termination
  by (relation "measure (\<lambda>(heap, startpos, pos). length heap - pos)") auto

definition heappush :: "entry list \<Rightarrow> entry \<Rightarrow> exn option \<times> entry list" where
  "heappush heap item = siftdown (heap @ [item]) 0 (length heap)"

text \<open>The queue calls \<open>heappop\<close> on a non-empty list only (\<open>get\<close> waits while the queue
  is empty).\<close>

definition heappop :: "entry list \<Rightarrow> (exn + entry) \<times> entry list" where
  "heappop heap =
     (if heap = [] then (Inl (Exn IndexError ''index out of range''), [])
      else if length heap = 1 then (Inr (last heap), [])
      else (case siftup ((butlast heap)[0 := last heap]) 0 0 of
              (Some e, heap') \<Rightarrow> (Inl e, heap')
            | (None, heap') \<Rightarrow> (Inr (heap ! 0), heap')))"

subsection \<open>The bus\<close>

text \<open>
  Subscribers are \<open>(subscription_id, callback)\<close> pairs per topic. What a callback does is
  outside the bus; \<open>delivered\<close> records every invocation \<open>callback(message)\<close> the bus
  makes, with the subscription it was made for (an exception raised by a callback is
  caught and printed). \<open>response_futures\<close> maps a correlation id to a future;
  \<open>resolved\<close> records the results set on futures.
\<close>

record BusStats =
  messages_sent :: int
  messages_received :: int
  messages_expired :: int
  subscribers_count :: int

record MessageBus =
  subscribers :: "(string \<times> (string \<times> nat) list) list"
  message_queue :: "entry list"
  response_futures :: "(string \<times> nat) list"
  bus_stats :: BusStats
  delivered :: "(string \<times> Message) list"
  resolved :: "(nat \<times> pyval) list"

definition count_expired :: "MessageBus \<Rightarrow> MessageBus" where
  "count_expired bus =
     bus\<lparr>bus_stats := (bus_stats bus)\<lparr>messages_expired := messages_expired (bus_stats bus) + 1\<rparr>\<rparr>"

definition publish :: "real \<Rightarrow> Message \<Rightarrow> MessageBus \<Rightarrow> exn option \<times> MessageBus" where
  "publish now message bus =
     (if is_expired now message then (None, count_expired bus)
      else (case heappush (message_queue bus) (- priority message, message) of
              (Some e, q) \<Rightarrow> (Some e, bus\<lparr>message_queue := q\<rparr>)
            | (None, q) \<Rightarrow>
                (None, bus\<lparr>message_queue := q,
                           bus_stats := (bus_stats bus)\<lparr>
                             messages_sent := messages_sent (bus_stats bus) + 1\<rparr>\<rparr>)))"

definition callbacks_of :: "MessageBus \<Rightarrow> string \<Rightarrow> (string \<times> nat) list" where
  "callbacks_of bus topic = (case map_of (subscribers bus) topic of None \<Rightarrow> [] | Some cbs \<Rightarrow> cbs)"

definition invoke_all :: "string \<Rightarrow> Message \<Rightarrow> MessageBus \<Rightarrow> MessageBus" where
  "invoke_all topic message bus =
     bus\<lparr>delivered := delivered bus @ map (\<lambda>(sid, cb). (sid, message)) (callbacks_of bus topic)\<rparr>"

definition handle_broadcast :: "Message \<Rightarrow> MessageBus \<Rightarrow> MessageBus" where
  "handle_broadcast message bus = invoke_all (''broadcast.'' @ message_type message) message bus"

definition handle_response :: "Message \<Rightarrow> MessageBus \<Rightarrow> MessageBus" where
  "handle_response message bus =
     (case map_of (response_futures bus) (correlation_id message) of
        None \<Rightarrow> bus
      | Some future \<Rightarrow>
          (let bus1 = bus\<lparr>response_futures := AList.delete (correlation_id message) (response_futures bus)\<rparr>
           in if future \<notin> fst ` set (resolved bus1)
              then bus1\<lparr>resolved := resolved bus1 @ [(future, payload message)]\<rparr>
              else bus1))"

definition handle_direct_message :: "Message \<Rightarrow> MessageBus \<Rightarrow> MessageBus" where
  "handle_direct_message message bus =
     (if receiver message \<noteq> None \<and> receiver message \<noteq> Some []
      then invoke_all (''agent.'' @ the (receiver message)) message bus
      else handle_broadcast message bus)"

text \<open>
  One pass through the body of the loop in \<open>_process_messages\<close>, at the clock reading
  \<open>now\<close>: \<open>get\<close> times out on an empty queue; an exception from \<open>get\<close> is caught by the
  loop's handler; an expired message is counted and skipped; any other is routed.
\<close>

definition process_message :: "real \<Rightarrow> MessageBus \<Rightarrow> MessageBus" where
  "process_message now bus =
     (if message_queue bus = [] then bus
      else (case heappop (message_queue bus) of
              (Inl e, q) \<Rightarrow> bus\<lparr>message_queue := q\<rparr>
            | (Inr (p, message), q) \<Rightarrow>
                if is_expired now message then count_expired (bus\<lparr>message_queue := q\<rparr>)
                else
                  (let bus1 = bus\<lparr>message_queue := q,
                                  bus_stats := (bus_stats bus)\<lparr>
                                    messages_received := messages_received (bus_stats bus) + 1\<rparr>\<rparr>
                   in if message_type message = ''broadcast'' then handle_broadcast message bus1
                      else if message_type message = ''response'' then handle_response message bus1
                      else handle_direct_message message bus1)))"





section \<open>Idempotency guard\<close>

text \<open>
  \<open>WorkflowSafety\<close> (workflow\_safety.py). The memory store is the collaborator behind
  \<open>memory.read(namespace, key)\<close> and \<open>memory.write(namespace, key, value)\<close>: a table from
  namespace and key to the persisted record. The content hash of the inputs
  (\<open>_content_address\<close>, SHA-256 of their JSON text) is the function \<open>sha\<close>, and
  \<open>randint\<close> gives the value of \<open>random.randint(1, 100)\<close> after \<open>random.seed(seed)\<close>;
  the fresh job token (\<open>uuid.uuid4()\<close>) and the clock reading are arguments. The
  call of the rate limiter in \<open>_simulate_step\<close> discards its result.
\<close>

record StepExecution =
  step_id :: string
  dedupe_key :: string
  se_inputs :: pydict
  se_outputs :: pydict
  executed_at :: real
  se_status :: string
  job_token :: string

record WorkflowSafety =
  ws_workflow_id :: string
  journal :: "StepExecution list"
  outbox :: "(string \<times> pyval) list"
  seed :: int
  clock_injected :: string

type_synonym memory_store = "((string \<times> string) \<times> StepExecution) list"

definition journal_namespace :: "WorkflowSafety \<Rightarrow> string" where
  "journal_namespace ws = ''workflow_'' @ ws_workflow_id ws @ ''_journal''"

definition find_step :: "WorkflowSafety \<Rightarrow> memory_store \<Rightarrow> string \<Rightarrow> StepExecution option" where
  "find_step ws mem key =
     (case List.find (\<lambda>exec. dedupe_key exec = key) (journal ws) of
        Some exec \<Rightarrow> Some exec
      | None \<Rightarrow> map_of mem (journal_namespace ws, key))"

definition simulate_step :: "(int \<Rightarrow> int) \<Rightarrow> WorkflowSafety \<Rightarrow> string \<Rightarrow> pydict \<Rightarrow> pydict" where
  "simulate_step randint ws sid inputs =
     [(''result'', PInt (randint (seed ws))), (''processed_at'', PStr (clock_injected ws))]"

text \<open>
  The body of \<open>execute_step\<close> as written under the decorator: what it returns and the
  guard and memory store afterwards.
\<close>

definition execute_step_body ::
  "(pydict \<Rightarrow> string) \<Rightarrow> (int \<Rightarrow> int) \<Rightarrow> string \<Rightarrow> pydict \<Rightarrow> string option \<Rightarrow> string \<Rightarrow> real
    \<Rightarrow> WorkflowSafety \<times> memory_store \<Rightarrow> (bool \<times> pydict) \<times> WorkflowSafety \<times> memory_store" where
  "execute_step_body sha randint sid inputs key_arg token now st =
     (let ws = fst st; mem = snd st;
          key = (if key_arg = None \<or> key_arg = Some [] then sha inputs else the key_arg)
      in case find_step ws mem key of
           Some existing \<Rightarrow> ((True, se_outputs existing), ws, mem)
         | None \<Rightarrow>
             (let outbox_entry = PDict [(''step_id'', PStr sid), (''dedupe_key'', PStr key),
                                        (''inputs'', PDict inputs), (''job_token'', PStr token)];
                  ws1 = ws\<lparr>outbox := AList.update token outbox_entry (outbox ws)\<rparr>;
                  deterministic_inputs =
                    AList.update ''__clock'' (PStr (clock_injected ws1))
                      (AList.update ''__seed'' (PInt (seed ws1)) inputs);
                  outputs = simulate_step randint ws1 sid deterministic_inputs;
                  execution = \<lparr>step_id = sid, dedupe_key = key, se_inputs = inputs,
                               se_outputs = outputs, executed_at = now,
                               se_status = ''success'', job_token = token\<rparr>;
                  ws2 = ws1\<lparr>journal := journal ws1 @ [execution]\<rparr>;
                  mem2 = AList.update
                           (journal_namespace ws2, ''step_'' @ str_nat (length (journal ws2)))
                           execution mem;
                  ws3 = ws2\<lparr>outbox := AList.delete token (outbox ws2)\<rparr>
              in ((False, outputs), ws3, mem2)))"

text \<open>
  The method is declared under \<open>@contextmanager\<close>. The decorator replaces it by a
  wrapper that calls the function with the arguments (so the body runs) and returns a
  \<open>_GeneratorContextManager\<close> object holding, as its generator, whatever the function
  returned. \<open>unpack\<close> is the assignment \<open>is_replay, outputs = r\<close> and \<open>enter\<close> is
  \<open>with r as x\<close>, the two ways a caller can take the result: the object is not
  iterable, and entering it calls \<open>next\<close> on the tuple it holds.
\<close>

datatype py_return = Tuple bool pydict | GeneratorContextManager py_return

definition WorkflowSafety_execute_step ::
  "(pydict \<Rightarrow> string) \<Rightarrow> (int \<Rightarrow> int) \<Rightarrow> string \<Rightarrow> pydict \<Rightarrow> string option \<Rightarrow> string \<Rightarrow> real
    \<Rightarrow> WorkflowSafety \<times> memory_store \<Rightarrow> py_return \<times> WorkflowSafety \<times> memory_store" where
  "WorkflowSafety_execute_step sha randint sid inputs key_arg token now st =
     (case execute_step_body sha randint sid inputs key_arg token now st of
        ((is_replay, outputs), st') \<Rightarrow> (GeneratorContextManager (Tuple is_replay outputs), st'))"

definition unpack :: "py_return \<Rightarrow> exn + bool \<times> pydict" where
  "unpack r =
     (case r of
        Tuple is_replay outputs \<Rightarrow> Inr (is_replay, outputs)
      | GeneratorContextManager g \<Rightarrow>
          Inl (Exn TypeError ''cannot unpack non-iterable _GeneratorContextManager object''))"

definition enter :: "py_return \<Rightarrow> exn + py_return" where
  "enter r =
     (case r of
        GeneratorContextManager (Tuple is_replay outputs) \<Rightarrow>
          Inl (Exn TypeError (quoted ''tuple'' @ '' object is not an iterator''))
      | GeneratorContextManager (GeneratorContextManager g) \<Rightarrow>
          Inl (Exn TypeError (quoted ''_GeneratorContextManager'' @ '' object is not an iterator''))
      | Tuple is_replay outputs \<Rightarrow>
          Inl (Exn TypeError (quoted ''tuple'' @
                 '' object does not support the context manager protocol'')))"


section \<open>Concrete states\<close>

text \<open>An execution with a given status and end time, and an orchestrator whose only
  agent is \<open>writer\<close>, idle, with all counters at zero.\<close>

definition demo_execution :: "WorkflowStatus \<Rightarrow> real option \<Rightarrow> WorkflowExecution" where
  "demo_execution st ended =
     \<lparr>workflow_id = ''wf_1'', workflow_config = [], status = st, start_time = Some 5,
      end_time = ended, current_step = None, results = [], errors = [], wf_context = []\<rparr>"

definition writer_registry :: Orchestrator where
  "writer_registry =
     \<lparr>agents = [(''writer'', \<lparr>ai_name = ''writer'', ai_role = ''author'', ai_capabilities = [],
                                ai_status = IDLE, ai_last_seen = 0, ai_metadata = []\<rparr>)],
      collaborations = [],
      stats = \<lparr>total_tasks = 0, successful_tasks = 0, failed_tasks = 0,
               active_collaborations = 0, total_collaborations = 0\<rparr>,
      episodic_memory = [], working_memory = [], offers_sent = []\<rparr>"

definition exn_class_of :: "(exn + 'a) \<Rightarrow> exn_kind option" where
  "exn_class_of r = (case r of Inl e \<Rightarrow> Some (exn_class e) | Inr v \<Rightarrow> None)"






text \<open>
  A bus with one subscriber of \<open>agent.writer\<close>, and the message object number \<open>i\<close> with
  a priority and a time to live, created at time 10. \<open>publish_all\<close> publishes a list
  of messages in order.
\<close>

definition demo_message :: "nat \<Rightarrow> int \<Rightarrow> real \<Rightarrow> Message" where
  "demo_message i p life =
     \<lparr>obj_id = i, message_type = ''request'', sender = ''planner'', receiver = Some ''writer'',
      payload = PNone, correlation_id = ''c'', priority = p, timestamp = 10, ttl = life\<rparr>"

definition demo_bus :: MessageBus where
  "demo_bus =
     \<lparr>subscribers = [(''agent.writer'', [(''agent.writer_1'', 0)])], message_queue = [],
      response_futures = [],
      bus_stats = \<lparr>messages_sent = 0, messages_received = 0, messages_expired = 0,
                   subscribers_count = 1\<rparr>,
      delivered = [], resolved = []\<rparr>"

definition publish_all :: "real \<Rightarrow> Message list \<Rightarrow> MessageBus \<Rightarrow> MessageBus" where
  "publish_all now ms bus = fold (\<lambda>m b. snd (publish now m b)) ms bus"



section \<open>Properties\<close>

subsection \<open>Dictionaries built key by key\<close>

lemma update_fresh: "k \<notin> fst ` set al \<Longrightarrow> AList.update k v al = al @ [(k, v)]"
  by (induction al) auto

lemma fold_update_distinct:
  "distinct (map fst kvs) \<Longrightarrow> fst ` set kvs \<inter> fst ` set acc = {} \<Longrightarrow>
   fold (\<lambda>(k, v) r. AList.update k (f v) r) kvs acc = acc @ map (\<lambda>(k, v). (k, f v)) kvs"
proof (induction kvs arbitrary: acc)
  case Nil
  then show ?case by simp
next
  case (Cons kv kvs)
  obtain k v where kv: "kv = (k, v)" by (cases kv)
  from Cons.prems have fresh: "k \<notin> fst ` set acc" and d: "distinct (map fst kvs)"
    and nk: "k \<notin> fst ` set kvs" and disj: "fst ` set kvs \<inter> fst ` set acc = {}"
    by (auto simp: kv)
  have "fst ` set kvs \<inter> fst ` set (acc @ [(k, f v)]) = {}"
    using nk disj by auto
  from Cons.IH [OF d this] show ?case
    by (simp add: kv update_fresh [OF fresh])
qed

lemma map_of_mapped:
  "map_of (map (\<lambda>(k, v). (k, f v)) kvs) k = map_option f (map_of kvs k)"
  by (induction kvs) auto

lemma resolve_parameters_distinct:
  "distinct (map fst params) \<Longrightarrow>
   resolve_parameters params ctx = map (\<lambda>(k, v). (k, resolve_value v ctx)) params"
  unfolding resolve_parameters_def
  using fold_update_distinct [of params "[]" "\<lambda>v. resolve_value v ctx"] by simp


lemmas str_defs =
  startswith_def endswith_def strip_def slice_2_m2_def slice_2_m1_def is_space_def

subsection \<open>Parameter templates\<close>

lemma get_nested_value_None: "get_nested_value PNone path = PNone"
  by (cases path) simp_all

lemma get_nested_value_append:
  "get_nested_value d (p @ q) = get_nested_value (get_nested_value d p) q"
  by (induction p arbitrary: d)
     (auto simp: get_nested_value_None split: pyval.splits option.splits)

lemma startswith_dollar: "startswith w ''${'' \<Longrightarrow> \<not> startswith w ''{{''"
  by (auto simp: startswith_def)

text \<open>
  Claim C10. Let \<open>params\<close> be the parameters of a Task step (a dictionary: its keys
  are distinct). A parameter whose value is a string that starts with \<open>{{\<close>, ends with
  \<open>}}\<close> and names a key absent from the context resolves to that same string. A
  parameter of the form \<open>${...}\<close> whose dotted path has a segment \<open>seg\<close> that is missing
  (the value reached by the segments before it is not a dictionary, or is one without
  the key \<open>seg\<close>) resolves to \<open>None\<close>.
\<close>

theorem C10_missing_template_unchanged:
  assumes "distinct (map fst params)"
  shows "(map_of params key = Some (PStr v) \<and> startswith v ''{{'' \<and> endswith v ''}}'' \<and>
          map_of ctx (strip (slice_2_m2 v)) = None
            \<longrightarrow> map_of (resolve_parameters params ctx) key = Some (PStr v)) \<and>
         (map_of params key = Some (PStr w) \<and> startswith w ''${'' \<and> endswith w ''}'' \<and>
          split_char CHR ''.'' (strip (slice_2_m1 w)) = pre @ seg # post \<and>
          (\<forall>d. get_nested_value (PDict ctx) pre = PDict d \<longrightarrow> map_of d seg = None)
            \<longrightarrow> map_of (resolve_parameters params ctx) key = Some PNone)"
proof (intro conjI impI)
  assume h: "map_of params key = Some (PStr v) \<and> startswith v ''{{'' \<and> endswith v ''}}'' \<and>
          map_of ctx (strip (slice_2_m2 v)) = None"
  then have "resolve_value (PStr v) ctx = PStr v"
    by (simp add: resolve_value_def ctx_get_def)
  with h show "map_of (resolve_parameters params ctx) key = Some (PStr v)"
    by (simp add: resolve_parameters_distinct [OF assms] map_of_mapped)
next
  assume h: "map_of params key = Some (PStr w) \<and> startswith w ''${'' \<and> endswith w ''}'' \<and>
          split_char CHR ''.'' (strip (slice_2_m1 w)) = pre @ seg # post \<and>
          (\<forall>d. get_nested_value (PDict ctx) pre = PDict d \<longrightarrow> map_of d seg = None)"
  then have "get_nested_value (get_nested_value (PDict ctx) pre) (seg # post) = PNone"
    by (cases "get_nested_value (PDict ctx) pre") simp_all
  then have "get_nested_value (PDict ctx) (pre @ seg # post) = PNone"
    by (simp add: get_nested_value_append)
  with h have "resolve_value (PStr w) ctx = PNone"
    by (simp add: resolve_value_def startswith_dollar)
  with h show "map_of (resolve_parameters params ctx) key = Some PNone"
    by (simp add: resolve_parameters_distinct [OF assms] map_of_mapped)
qed

theorem C10_missing_template_unchanged_witness:
  "distinct (map fst [(''x'', PStr ''{{ missing }}''), (''y'', PStr ''${a.b.c}'')]) \<and>
   startswith ''{{ missing }}'' ''{{'' \<and> endswith ''{{ missing }}'' ''}}'' \<and>
   map_of [(''a'', PDict [(''b'', PInt 1)])] (strip (slice_2_m2 ''{{ missing }}'')) = None \<and>
   split_char CHR ''.'' (strip (slice_2_m1 ''${a.b.c}'')) = [''a'', ''b''] @ ''c'' # [] \<and>
   get_nested_value (PDict [(''a'', PDict [(''b'', PInt 1)])]) [''a'', ''b''] = PInt 1 \<and>
   map_of (resolve_parameters [(''x'', PStr ''{{ missing }}''), (''y'', PStr ''${a.b.c}'')]
             [(''a'', PDict [(''b'', PInt 1)])]) ''x'' = Some (PStr ''{{ missing }}'') \<and>
   map_of (resolve_parameters [(''x'', PStr ''{{ missing }}''), (''y'', PStr ''${a.b.c}'')]
             [(''a'', PDict [(''b'', PInt 1)])]) ''y'' = Some PNone"
  using C10_missing_template_unchanged
          [where params = "[(''x'', PStr ''{{ missing }}''), (''y'', PStr ''${a.b.c}'')]"
             and ctx = "[(''a'', PDict [(''b'', PInt 1)])]" and key = "''x''"
             and v = "''{{ missing }}''"]
        C10_missing_template_unchanged
          [where params = "[(''x'', PStr ''{{ missing }}''), (''y'', PStr ''${a.b.c}'')]"
             and ctx = "[(''a'', PDict [(''b'', PInt 1)])]" and key = "''y''"
             and w = "''${a.b.c}''" and pre = "[''a'', ''b'']" and seg = "''c''" and post = "[]"]
  by (simp add: str_defs)

subsection \<open>Conditional steps\<close>








subsection \<open>Parallel steps\<close>







subsection \<open>Message bus\<close>





text \<open>
  On a tie the second \<open>publish\<close> raises, whatever the two messages are: two message
  objects of equal priority, neither expired, published to a bus with an empty queue.
\<close>

lemma publish_tie_raises:
  assumes "priority a = priority b" and "obj_id a \<noteq> obj_id b"
      and "\<not> is_expired now a" and "\<not> is_expired now b" and "message_queue bus = []"
  shows "fst (publish now b (snd (publish now a bus)))
           = Some (Exn TypeError (quoted ''<'' @ '' not supported between instances of '' @
               quoted ''Message'' @ '' and '' @ quoted ''Message''))"
  using assms by (simp add: publish_def heappush_def entry_lt_def)



text \<open>
  Claim C1 asks for queue entries that carry a sequence number. The entry that
  \<open>publish\<close> puts is the pair \<open>(-priority, message)\<close> and nothing else. With one message
  of priority 1 queued, publishing a second message of priority 1 raises \<open>TypeError\<close>
  out of \<open>publish\<close>, because the tie makes the queue compare the two messages
  (\<open>publish_tie_raises\<close> is this for any two messages). Three
  messages of priorities 5, 1, 1 are all accepted (each new entry meets only the root),
  but when the worker then takes the first, restoring the heap compares the two
  priority-1 entries: \<open>get\<close> raises, the loop's handler prints the error, and the
  priority-5 message, already removed from the queue, is never delivered.
\<close>

theorem C1_equal_priority_raises:
  "message_queue (snd (publish 11 (demo_message 1 1 300) demo_bus))
     = [(- 1, demo_message 1 1 300)] \<and>
   fst (publish 11 (demo_message 2 1 300) (snd (publish 11 (demo_message 1 1 300) demo_bus)))
     = Some (Exn TypeError (quoted ''<'' @ '' not supported between instances of '' @
               quoted ''Message'' @ '' and '' @ quoted ''Message'')) \<and>
   fst (publish 11 (demo_message 1 5 300) demo_bus) = None \<and>
   fst (publish 11 (demo_message 2 1 300) (publish_all 11 [demo_message 1 5 300] demo_bus))
     = None \<and>
   fst (publish 11 (demo_message 3 1 300)
          (publish_all 11 [demo_message 1 5 300, demo_message 2 1 300] demo_bus)) = None \<and>
   map (obj_id \<circ> snd) (message_queue (publish_all 11
          [demo_message 1 5 300, demo_message 2 1 300, demo_message 3 1 300] demo_bus))
     = [1, 2, 3] \<and>
   delivered (process_message 12 (publish_all 11
          [demo_message 1 5 300, demo_message 2 1 300, demo_message 3 1 300] demo_bus)) = [] \<and>
   map (obj_id \<circ> snd) (message_queue (process_message 12 (publish_all 11
          [demo_message 1 5 300, demo_message 2 1 300, demo_message 3 1 300] demo_bus)))
     = [2, 3]"
  by (simp add: publish_all_def publish_def is_expired_def demo_message_def demo_bus_def
        heappush_def heappop_def entry_lt_def process_message_def)

subsection \<open>Idempotency guard\<close>

lemma find_append_None:
  "List.find P xs = None \<Longrightarrow> List.find P (xs @ [x]) = (if P x then Some x else None)"
  by (induction xs) (auto split: if_splits)

lemma find_None_filter: "List.find P xs = None \<Longrightarrow> filter P xs = []"
  by (induction xs) (auto split: if_splits)

text \<open>
  The body of \<open>execute_step\<close> is idempotent: on a guard and a store that do not know the
  key of the inputs, it answers \<open>(False, out)\<close>; run again on the same inputs it answers
  \<open>(True, out)\<close> with the same \<open>out\<close> and changes nothing, and the journal has one record
  with that key.
\<close>

lemma execute_step_body_idempotent:
  assumes fresh: "find_step ws mem (sha inputs) = None"
  shows "fst (execute_step_body sha randint sid inputs None tok1 t1 (ws, mem))
           = (False, simulate_step randint ws sid inputs) \<and>
         execute_step_body sha randint sid inputs None tok2 t2
             (snd (execute_step_body sha randint sid inputs None tok1 t1 (ws, mem)))
           = ((True, simulate_step randint ws sid inputs),
              snd (execute_step_body sha randint sid inputs None tok1 t1 (ws, mem))) \<and>
         length (filter (\<lambda>exec. dedupe_key exec = sha inputs)
                   (journal (fst (snd (execute_step_body sha randint sid inputs None tok1 t1
                                         (ws, mem))))))
           = 1"
proof -
  from fresh have j: "List.find (\<lambda>exec. dedupe_key exec = sha inputs) (journal ws) = None"
    by (simp add: find_step_def split: option.splits)
  show ?thesis
    using fresh
    by (simp add: execute_step_body_def Let_def find_step_def find_append_None [OF j]
          find_None_filter [OF j] simulate_step_def)
qed

text \<open>
  Claim C2 says what \<open>execute_step\<close> returns. Under its decorator the method returns, on
  every call, a \<open>_GeneratorContextManager\<close> object around the pair that the body
  computed, never the pair: a caller can neither unpack the result nor enter it.
\<close>

theorem C2_execute_step_returns_no_pair:
  "(\<exists>is_replay outputs.
      fst (WorkflowSafety_execute_step sha randint sid inputs key_arg token now st)
        = GeneratorContextManager (Tuple is_replay outputs)) \<and>
   fst (WorkflowSafety_execute_step sha randint sid inputs key_arg token now st) \<noteq> Tuple b out \<and>
   (\<exists>e. unpack (fst (WorkflowSafety_execute_step sha randint sid inputs key_arg token now st))
          = Inl e) \<and>
   (\<exists>e. enter (fst (WorkflowSafety_execute_step sha randint sid inputs key_arg token now st))
          = Inl e)"
proof -
  obtain is_replay outputs st'
    where body: "execute_step_body sha randint sid inputs key_arg token now st
                   = ((is_replay, outputs), st')"
    by (metis surj_pair)
  then have ret: "fst (WorkflowSafety_execute_step sha randint sid inputs key_arg token now st)
                    = GeneratorContextManager (Tuple is_replay outputs)"
    by (simp add: WorkflowSafety_execute_step_def)
  show ?thesis
    unfolding ret by (simp add: unpack_def enter_def)
qed



subsection \<open>Cancellation\<close>

text \<open>
  Claim C9. \<open>cancel_workflow\<close> returns false and changes nothing when the id is not
  active or its execution is not running; on a running execution it returns true, and
  the execution then has status \<open>CANCELLED\<close> and an end time that is set.
\<close>

theorem C9_cancel_workflow:
  "(map_of aw wid = None \<longrightarrow> cancel_workflow wid now aw = (False, aw)) \<and>
   (map_of aw wid = Some ex \<and> status ex \<noteq> RUNNING \<longrightarrow> cancel_workflow wid now aw = (False, aw)) \<and>
   (map_of aw wid = Some ex \<and> status ex = RUNNING \<longrightarrow>
      fst (cancel_workflow wid now aw) = True \<and>
      (\<exists>ex'. map_of (snd (cancel_workflow wid now aw)) wid = Some ex' \<and>
             status ex' = CANCELLED \<and> end_time ex' \<noteq> None \<and>
             ex' = ex\<lparr>status := CANCELLED, end_time := Some now\<rparr>))"
proof (intro conjI impI)
  assume "map_of aw wid = None"
  then show "cancel_workflow wid now aw = (False, aw)"
    by (simp add: cancel_workflow_def)
next
  assume "map_of aw wid = Some ex \<and> status ex \<noteq> RUNNING"
  then show "cancel_workflow wid now aw = (False, aw)"
    by (simp add: cancel_workflow_def)
next
  assume running: "map_of aw wid = Some ex \<and> status ex = RUNNING"
  then have c: "cancel_workflow wid now aw
                  = (True, AList.update wid (ex\<lparr>status := CANCELLED, end_time := Some now\<rparr>) aw)"
    by (simp add: cancel_workflow_def)
  show "fst (cancel_workflow wid now aw) = True"
    by (simp add: c)
  show "\<exists>ex'. map_of (snd (cancel_workflow wid now aw)) wid = Some ex' \<and>
             status ex' = CANCELLED \<and> end_time ex' \<noteq> None \<and>
             ex' = ex\<lparr>status := CANCELLED, end_time := Some now\<rparr>"
    by (simp add: c AList.update_conv')
qed

theorem C9_cancel_workflow_witness:
  "map_of ([] :: (string \<times> WorkflowExecution) list) ''wf_1'' = None \<and>
   cancel_workflow ''wf_1'' 7 [] = (False, []) \<and>
   fst (cancel_workflow ''wf_1'' 7 [(''wf_1'', demo_execution COMPLETED (Some 6))]) = False \<and>
   fst (cancel_workflow ''wf_1'' 7 [(''wf_1'', demo_execution RUNNING None)]) = True \<and>
   map_of (snd (cancel_workflow ''wf_1'' 7 [(''wf_1'', demo_execution RUNNING None)])) ''wf_1''
     = Some (demo_execution CANCELLED (Some 7))"
  using C9_cancel_workflow [where aw = "[]" and wid = "''wf_1''" and now = 7]
        C9_cancel_workflow [where aw = "[(''wf_1'', demo_execution COMPLETED (Some 6))]"
                              and wid = "''wf_1''" and now = 7
                              and ex = "demo_execution COMPLETED (Some 6)"]
        C9_cancel_workflow [where aw = "[(''wf_1'', demo_execution RUNNING None)]"
                              and wid = "''wf_1''" and now = 7
                              and ex = "demo_execution RUNNING None"]
  by (simp add: demo_execution_def)

subsection \<open>Collaboration sessions\<close>

text \<open>
  Claim C7 asks for a participant list without duplicates. \<open>start_collaboration\<close>
  stores the initiator followed by the given participants as they are: the session always
  holds \<open>initiator # participants\<close>, so an initiator who is also listed as a participant,
  or a participant listed twice, occurs twice in the session. (\<open>add_participant\<close>, the
  other way a name enters the list, does check for membership first.)
\<close>

theorem C7_start_collaboration_duplicates:
  "session_participants (start_collaboration ini ps ctype ctx t_id t_start orch) = Some (ini # ps) \<and>
   session_participants (start_collaboration ''a'' [''b'', ''a'', ''b''] ctype ctx t_id t_start orch)
     = Some [''a'', ''b'', ''a'', ''b''] \<and>
   participants (add_participant ''a'' (CollaborationContext_init cid ''a'' [''a'', ''b''] ctype ctx t_start))
     = [''a'', ''b'']"
  by (simp add: session_participants_def start_collaboration_def Let_def AList.update_conv'
        CollaborationContext_init_def add_participant_def)

subsection \<open>Task dispatch\<close>

lemma str_nat_1: "str_nat (Suc 0) = ''1''"
  by (simp add: str_nat.simps [of "Suc 0"] digit_char_def)

lemma map_of_set_status:
  "map_of (agents (set_status a s orch)) a
     = map_option (\<lambda>i. i\<lparr>ai_status := s\<rparr>) (map_of (agents orch) a)"
proof -
  have "map_of (map (\<lambda>(n, i). if n = a then (n, i\<lparr>ai_status := s\<rparr>) else (n, i)) xs) a
          = map_option (\<lambda>i. i\<lparr>ai_status := s\<rparr>) (map_of xs a)" for xs
    by (induction xs) auto
  then show ?thesis by (simp add: set_status_def)
qed

lemma set_status_stats: "stats (set_status a s orch) = stats orch"
  by (simp add: set_status_def)

lemma count_agents:
  "agents (count_success orch) = agents orch" "agents (count_failure orch) = agents orch"
  by (simp_all add: count_success_def count_failure_def)

lemma count_stats:
  "failed_tasks (stats (count_failure orch)) = failed_tasks (stats orch) + 1"
  "failed_tasks (stats (count_success orch)) = failed_tasks (stats orch)"
  by (simp_all add: count_success_def count_failure_def)

lemma Experience_init_call:
  "Experience_init experience_call_kwargs a ok
     = Inl (Exn TypeError (''Experience.__init__() missing 1 required positional argument: '' @
              quoted ''timestamp''))"
  by (simp add: Experience_init_def Experience_fields_def experience_call_kwargs_def str_nat_1)

text \<open>
  Whatever the request does, \<open>execute_task\<close> on a registered idle agent ends in the
  \<open>TypeError\<close> of the \<open>Experience\<close> constructor, with the agent in \<open>ERROR\<close> and a
  failure counted.
\<close>

lemma execute_task_idle_raises:
  assumes "map_of (agents orch) a = Some info" and "ai_status info = IDLE"
  shows "fst (execute_task a sent orch)
           = Inl (Exn TypeError (''Experience.__init__() missing 1 required positional argument: '' @
                    quoted ''timestamp'')) \<and>
         agent_status (snd (execute_task a sent orch)) a = Some ERROR \<and>
         failed_tasks (stats (snd (execute_task a sent orch))) = failed_tasks (stats orch) + 1"
  using assms
  by (cases sent)
     (simp_all add: execute_task_def execute_task_try_def execute_task_except_def
        Experience_init_call agent_status_def map_of_set_status count_agents count_stats
        set_status_stats Let_def)

text \<open>
  Claim C4, at the scenario of the specification: one registered agent \<open>writer\<close>, idle,
  and a task request that succeeds. The first two clauses hold as claimed: an unknown
  name raises \<open>ValueError\<close> and an agent that is not idle raises \<open>RuntimeError\<close>, the
  orchestrator unchanged. In the third, the request has succeeded and the success has been
  counted when \<open>Experience(...)\<close> raises \<open>TypeError\<close> for the missing \<open>timestamp\<close>; the
  handler then marks the agent \<open>ERROR\<close> and counts a failure as well, and its own
  \<open>Experience(...)\<close> raises again: the caller sees \<open>TypeError\<close>, the agent is left in
  \<open>ERROR\<close>, and one task has been counted twice. In the fourth, the request itself fails
  with a timeout: the counters are as claimed, but the caller sees the \<open>TypeError\<close> of
  the handler, not the timeout.
\<close>

theorem C4_execute_task_scenario:
  "execute_task ''editor'' (Inr PNone) writer_registry
     = (Inl (Exn ValueError ''Agent 'editor' not registered''), writer_registry) \<and>
   exn_class_of (fst (execute_task ''writer'' (Inr PNone) (set_status ''writer'' BUSY writer_registry)))
     = Some RuntimeError \<and>
   (let r = execute_task ''writer'' (Inr (PDict [(''status'', PStr ''received'')])) writer_registry in
      fst r = Inl (Exn TypeError (''Experience.__init__() missing 1 required positional argument: '' @
                     quoted ''timestamp'')) \<and>
      agent_status (snd r) ''writer'' = Some ERROR \<and>
      total_tasks (stats (snd r)) = 2 \<and>
      successful_tasks (stats (snd r)) = 1 \<and>
      failed_tasks (stats (snd r)) = 1 \<and>
      episodic_memory (snd r) = []) \<and>
   (let r = execute_task ''writer'' (Inl (Exn TimeoutError ''Task request to writer timed out'')) writer_registry in
      exn_class_of (fst r) = Some TypeError \<and>
      agent_status (snd r) ''writer'' = Some ERROR \<and>
      total_tasks (stats (snd r)) = 1 \<and>
      successful_tasks (stats (snd r)) = 0 \<and>
      failed_tasks (stats (snd r)) = 1)"
  by (simp add: execute_task_def execute_task_try_def execute_task_except_def writer_registry_def
        set_status_def agent_status_def count_success_def count_failure_def Experience_init_def
        Experience_fields_def experience_call_kwargs_def exn_class_of_def Let_def str_nat_1
        quoted_def)

end
